theory Spec2Isabelle
  imports Complex_Main
begin

section \<open>The state store (static/js/timesheet/state.js)\<close>

text \<open>
  \<open>TimesheetState\<close> is a singleton object whose methods assign to its own fields.
  It is modelled as a record that every operation takes and returns. The days of the
  week, which key the seven inputs of a row, are an enumeration in the order of the
  array \<open>['sun', 'mon', 'tue', 'wed', 'thu', 'fri', 'sat']\<close>.
\<close>

datatype day = Sun | Mon | Tue | Wed | Thu | Fri | Sat

definition days :: "day list" where
  "days = [Sun, Mon, Tue, Wed, Thu, Fri, Sat]"

text \<open>
  The record the API delivers: \<open>{id, week_start, status, pay_period_confirmed, entries,
  reimbursement_items}\<close>. A property that may be missing (\<open>undefined\<close> or \<open>null\<close>) is an
  option. A number is a rational: every finite double is one, and the sections below say
  where the arithmetic of the source is exact on them.
\<close>

record entry =
  hour_type :: string
  hours :: "day \<Rightarrow> rat option"

record item =
  item_id :: string
  description :: string
  amount :: "rat option"
  category :: string

record timesheet =
  ts_id :: "string option"
  week_start :: "string option"
  status :: string
  pay_period_confirmed :: "bool option"
  entries :: "entry list option"
  reimbursement_items :: "item list option"

text \<open>
  The data an event carries. A callback is a JavaScript function; it is identified here
  by a number, and calling it is recorded in the field \<open>invoked\<close>. Callbacks are taken
  not to call back into the store. The field \<open>emitted\<close> records every call of \<open>emit\<close>
  that runs its loop, whether or not anybody listens.
\<close>

datatype payload =
    InitData "string option"
  | TimesheetData timesheet
  | ChangedData bool
  | HourTypeData string

type_synonym callback = nat

record timesheet_state =
  currentTimesheet :: "timesheet option"
  currentWeekStart :: "string option"
  addedHourTypes :: "string list"
  reimbursementItems :: "item list"
  hasUnsavedChanges :: bool
  listeners :: "string \<Rightarrow> callback list"
  emitted :: "(string \<times> payload) list"
  invoked :: "(callback \<times> string \<times> payload) list"

text \<open>
  \<open>addedHourTypes\<close> is a JavaScript \<open>Set\<close>: it keeps insertion order and holds no value
  twice. \<open>Set.add\<close> of a member changes nothing, \<open>Set.delete\<close> removes the member.
\<close>

definition set_add :: "string \<Rightarrow> string list \<Rightarrow> string list" where
  "set_add x xs = (if x \<in> set xs then xs else xs @ [x])"

definition set_delete :: "string \<Rightarrow> string list \<Rightarrow> string list" where
  "set_delete x xs = removeAll x xs"

subsection \<open>Events\<close>

text \<open>
  \<open>_listeners\<close> is a plain object, so a lookup \<open>this._listeners[event]\<close> under a name
  that every object inherits from \<open>Object.prototype\<close> finds the inherited member (a
  function, or the prototype itself under \<open>__proto__\<close>), which is truthy and no array.
  For such a name \<open>on\<close> skips the creation of the array and throws a \<open>TypeError\<close> at
  \<open>push\<close>, and \<open>emit\<close> throws a \<open>TypeError\<close> at \<open>forEach\<close>. The names are those of the
  members of \<open>Object.prototype\<close> in the language standard, its annex for browsers
  included.
\<close>

datatype error = TypeError

definition inheritedName :: "string \<Rightarrow> bool" where
  "inheritedName event =
     (event \<in> set [''constructor'', ''hasOwnProperty'', ''isPrototypeOf'',
        ''propertyIsEnumerable'', ''toLocaleString'', ''toString'', ''valueOf'',
        ''__defineGetter__'', ''__defineSetter__'', ''__lookupGetter__'',
        ''__lookupSetter__'', ''__proto__''])"

text \<open>
  \<open>on\<close> appends the callback to the array of the event. The function it returns, which
  exists only when \<open>on\<close> has returned, filters every occurrence of the callback out
  again (\<open>unsubscribe\<close>). An event without an array has no listeners
  (\<open>this._listeners[event] || []\<close>).
\<close>

definition on :: "string \<Rightarrow> callback \<Rightarrow> timesheet_state \<Rightarrow> error + timesheet_state" where
  "on event cb s =
     (if inheritedName event then Inl TypeError
      else Inr (s\<lparr>listeners := (listeners s)(event := listeners s event @ [cb])\<rparr>))"

definition unsubscribe :: "string \<Rightarrow> callback \<Rightarrow> timesheet_state \<Rightarrow> timesheet_state" where
  "unsubscribe event cb s =
     s\<lparr>listeners := (listeners s)(event := filter (\<lambda>c. c \<noteq> cb) (listeners s event))\<rparr>"

text \<open>
  \<open>callListeners\<close> is the loop of \<open>emit\<close> over the array of the event: every callback
  is called in the order of registration, inside \<open>try\<close>, so a callback that throws does
  not stop the loop. \<open>emit\<close> is the whole function, with the \<open>TypeError\<close> of an
  inherited name.
\<close>

definition callListeners :: "string \<Rightarrow> payload \<Rightarrow> timesheet_state \<Rightarrow> timesheet_state" where
  "callListeners event data s =
     s\<lparr>emitted := emitted s @ [(event, data)],
       invoked := invoked s @ map (\<lambda>cb. (cb, event, data)) (listeners s event)\<rparr>"

definition emit :: "string \<Rightarrow> payload \<Rightarrow> timesheet_state \<Rightarrow> error + timesheet_state" where
  "emit event data s =
     (if inheritedName event then Inl TypeError else Inr (callListeners event data s))"

subsection \<open>Operations\<close>

text \<open>
  The operations of the store call \<open>emit\<close> with the names \<open>init\<close>, \<open>timesheetLoaded\<close>,
  \<open>changed\<close>, \<open>hourTypeAdded\<close> and \<open>hourTypeRemoved\<close> only. None of them is inherited,
  so these calls never throw (lemma \<open>emit_own_events\<close> below) and are written as the
  loop they run.
\<close>

definition init :: "string option \<Rightarrow> timesheet_state \<Rightarrow> timesheet_state" where
  "init weekStart s =
     callListeners ''init'' (InitData weekStart)
       (s\<lparr>currentTimesheet := None,
          currentWeekStart := weekStart,
          addedHourTypes := [],
          reimbursementItems := [],
          hasUnsavedChanges := False\<rparr>)"

definition loadTimesheet :: "timesheet \<Rightarrow> timesheet_state \<Rightarrow> timesheet_state" where
  "loadTimesheet t s =
     (let s1 = s\<lparr>currentTimesheet := Some t,
                 currentWeekStart := week_start t,
                 hasUnsavedChanges := False,
                 addedHourTypes := []\<rparr>;
          s2 = (case entries t of
                  None \<Rightarrow> s1
                | Some es \<Rightarrow>
                    s1\<lparr>addedHourTypes := foldl (\<lambda>acc e. set_add (hour_type e) acc) [] es\<rparr>);
          s3 = s2\<lparr>reimbursementItems :=
                    (case reimbursement_items t of Some its \<Rightarrow> its | None \<Rightarrow> [])\<rparr>
      in callListeners ''timesheetLoaded'' (TimesheetData t) s3)"

text \<open>
  \<open>init\<close> also looks up the form and the table body again
  (\<open>_cacheDOMReferences\<close>); the two references are read by no operation and are not
  part of the record.

  \<open>isEditable\<close> only reads: its body has no assignment and no call of \<open>emit\<close>, so it is a
  function from the state to a boolean. \<open>pay_period_confirmed || false\<close> is false for a
  missing property.
\<close>

definition isEditable :: "timesheet_state \<Rightarrow> bool" where
  "isEditable s =
     (case currentTimesheet s of
        None \<Rightarrow> True
      | Some t \<Rightarrow>
          (let payPeriodConfirmed =
                 (case pay_period_confirmed t of Some b \<Rightarrow> b | None \<Rightarrow> False)
           in if payPeriodConfirmed then False
              else status t = ''NEW'' \<or> status t = ''NEEDS_APPROVAL''))"

definition markChanged :: "timesheet_state \<Rightarrow> timesheet_state" where
  "markChanged s =
     (if \<not> hasUnsavedChanges s
      then callListeners ''changed'' (ChangedData True) (s\<lparr>hasUnsavedChanges := True\<rparr>)
      else s)"

definition clearChanges :: "timesheet_state \<Rightarrow> timesheet_state" where
  "clearChanges s = callListeners ''changed'' (ChangedData False) (s\<lparr>hasUnsavedChanges := False\<rparr>)"

definition addHourType :: "string \<Rightarrow> timesheet_state \<Rightarrow> timesheet_state" where
  "addHourType hourType s =
     callListeners ''hourTypeAdded'' (HourTypeData hourType)
       (markChanged (s\<lparr>addedHourTypes := set_add hourType (addedHourTypes s)\<rparr>))"

definition removeHourType :: "string \<Rightarrow> timesheet_state \<Rightarrow> timesheet_state" where
  "removeHourType hourType s =
     callListeners ''hourTypeRemoved'' (HourTypeData hourType)
       (markChanged (s\<lparr>addedHourTypes := set_delete hourType (addedHourTypes s)\<rparr>))"

definition hasHourType :: "string \<Rightarrow> timesheet_state \<Rightarrow> bool" where
  "hasHourType hourType s = (hourType \<in> set (addedHourTypes s))"

definition getAddedHourTypes :: "timesheet_state \<Rightarrow> string list" where
  "getAddedHourTypes s = addedHourTypes s"

text \<open>The object literal before any method has run.\<close>

definition initial_state :: timesheet_state where
  "initial_state =
     \<lparr>currentTimesheet = None, currentWeekStart = None, addedHourTypes = [],
      reimbursementItems = [], hasUnsavedChanges = False, listeners = (\<lambda>_. []),
      emitted = [], invoked = []\<rparr>"

text \<open>The state after callback 7 has been registered for \<open>changed\<close>.\<close>

definition subscribed_state :: timesheet_state where
  "subscribed_state = initial_state\<lparr>listeners := (\<lambda>_. [])(''changed'' := [7])\<rparr>"

text \<open>The value of \<open>pay_period_confirmed || false\<close>, named as the specification names it.\<close>

definition payPeriodLocked :: "timesheet \<Rightarrow> bool" where
  "payPeriodLocked t = (case pay_period_confirmed t of Some b \<Rightarrow> b | None \<Rightarrow> False)"

text \<open>Records used as concrete inputs.\<close>

definition submitted_record :: timesheet where
  "submitted_record =
     \<lparr>ts_id = Some ''42'', week_start = Some ''2026-01-04'', status = ''SUBMITTED'',
      pay_period_confirmed = None, entries = Some [], reimbursement_items = None\<rparr>"

definition new_record :: timesheet where
  "new_record = submitted_record\<lparr>status := ''NEW''\<rparr>"

section \<open>The entry rows (static/js/timesheet/entries.js)\<close>

text \<open>
  \<open>EntriesModule\<close> keeps its data in the document: the table body \<open>entries-body\<close> holds
  one row per hour type, a row holds seven number inputs keyed by \<open>data-day\<close> and a cell
  \<open>row-total\<close>; below the body are the cells \<open>col-total-<day>\<close> and \<open>grand-total\<close>.
  The page is modelled as a record of these, of the store, of the role of the user
  (\<open>UserInfo.role\<close>, absent when \<open>UserInfo\<close> is undefined) and of the lines written by
  \<open>console.warn\<close>. The table body may be missing from the document; the total cells are
  taken to be there. The options of the selector and the visibility of the add controls
  are written and never read back by the operations below, so they are not part of the
  record; what \<open>populateSelector\<close> offers is given as a function.

  The text of an input is kept as what \<open>parseFloat\<close> reads from it: \<open>None\<close> when the
  text is empty or not a number (\<open>NaN\<close>), and the number otherwise. The text of a total
  cell is written by \<open>toFixed(1)\<close> and is kept as the number that the numeral with one
  decimal denotes.
\<close>

record entry_row =
  row_hourType :: string
  row_inputs :: "day \<Rightarrow> rat option"
  row_readonly :: bool
  row_removeBtn :: bool
  row_total :: rat

record page =
  store :: timesheet_state
  userRole :: "string option"
  entriesBody :: "entry_row list option"
  colTotal :: "day \<Rightarrow> rat"
  grandTotal :: rat
  warned :: "string list"

record collected_entry =
  ce_hour_type :: string
  ce_hours :: "day \<Rightarrow> rat"

definition ALL_HOUR_TYPES :: "string list" where
  "ALL_HOUR_TYPES = [''Work'', ''Training'', ''Field'', ''Holiday'']"

definition TRAINEE_HOUR_TYPES :: "string list" where
  "TRAINEE_HOUR_TYPES = [''Training'']"

definition getAvailableHourTypes :: "page \<Rightarrow> string list" where
  "getAvailableHourTypes p =
     (let isTrainee = (case userRole p of None \<Rightarrow> False | Some r \<Rightarrow> r = ''trainee'')
      in if isTrainee then TRAINEE_HOUR_TYPES else ALL_HOUR_TYPES)"

text \<open>The values of the options that \<open>populateSelector\<close> appends, in order.\<close>

definition populateSelector :: "page \<Rightarrow> string list" where
  "populateSelector p =
     filter (\<lambda>hourType. \<not> hasHourType hourType (store p)) (getAvailableHourTypes p)"

subsection \<open>Numbers\<close>

text \<open>
  \<open>parseFloat(text) || 0\<close>: the number of the text, and 0 for an empty or non-numeric
  text (\<open>NaN\<close> is falsy).
\<close>

definition parseNum :: "rat option \<Rightarrow> rat" where
  "parseNum v = (case v of None \<Rightarrow> 0 | Some x \<Rightarrow> x)"

text \<open>
  The totals are summed in the rationals. A sum of doubles can differ from the exact sum
  in its last bits, which \<open>toFixed(1)\<close> can turn into another decimal (0.01 + 2.04 is
  written as 2.0). On multiples of one half the sums of doubles are exact, and the
  statements below take sums of such values only, with one exception: 7.3 + 1.0 in the
  first of the two sequences of events, where the sum of the doubles is less than
  \<open>2e-15\<close> away from 8.3 and is written as 8.3 as well.

  \<open>x.toFixed(1)\<close>, as the number its result denotes: the integer \<open>n\<close> for which \<open>n / 10\<close>
  is closest to \<open>x\<close>, the larger one of two, with the sign treated apart.
\<close>

definition toFixed1 :: "rat \<Rightarrow> rat" where
  "toFixed1 x =
     (if x < 0 then - (of_int \<lfloor>(- x) * 10 + 1 / 2\<rfloor> / 10)
      else of_int \<lfloor>x * 10 + 1 / 2\<rfloor> / 10)"

text \<open>
  The handler of \<open>change\<close>: \<open>changeValue\<close> is the local variable \<open>value\<close> after the three
  assignments (\<open>Math.round y\<close> is \<open>\<lfloor>y + 1/2\<rfloor>\<close>), \<open>changeHandler\<close> the text it
  leaves in the input (\<open>value || ''\<close>). Doubling, rounding and halving a double between 0
  and 24 are exact, so the rationals compute what the doubles do.
\<close>

definition changeValue :: "rat option \<Rightarrow> rat" where
  "changeValue v =
     (let value = parseNum v;
          value = max 0 (min 24 value);
          value = of_int \<lfloor>value * 2 + 1 / 2\<rfloor> / 2
      in value)"

definition changeHandler :: "rat option \<Rightarrow> rat option" where
  "changeHandler v = (let value = changeValue v in if value = 0 then None else Some value)"

subsection \<open>Rows\<close>

definition rowSum :: "entry_row \<Rightarrow> rat" where
  "rowSum r = foldl (\<lambda>total d. total + parseNum (row_inputs r d)) 0 days"

definition buildRow :: "string \<Rightarrow> entry option \<Rightarrow> timesheet_state \<Rightarrow> entry_row" where
  "buildRow hourType existingData s =
     (let editable = isEditable s;
          value = (\<lambda>d. case existingData of
                           None \<Rightarrow> None
                         | Some e \<Rightarrow>
                             (case hours e d of
                                None \<Rightarrow> None
                              | Some x \<Rightarrow> if x = 0 then None else Some x));
          total = (case existingData of
                     None \<Rightarrow> 0
                   | Some e \<Rightarrow> foldl (\<lambda>sum d. sum + parseNum (hours e d)) 0 days)
      in \<lparr>row_hourType = hourType, row_inputs = value, row_readonly = (\<not> editable),
          row_removeBtn = editable, row_total = toFixed1 total\<rparr>)"

text \<open>
  \<open>addRow\<close>: the guard against a duplicate comes first, then the lookup of the table
  body. The handlers that \<open>_setupRowHandlers\<close> attaches to the new row are
  \<open>inputHandler\<close>, \<open>changeHandler\<close> and \<open>removeRow\<close> below; the calls that follow it
  only hide options of the selector and the add controls.
\<close>

definition addRow :: "string \<Rightarrow> entry option \<Rightarrow> page \<Rightarrow> page" where
  "addRow hourType existingData p =
     (if hasHourType hourType (store p)
      then p\<lparr>warned := warned p @ [''Hour type '' @ hourType @ '' already added'']\<rparr>
      else
        (case entriesBody p of
           None \<Rightarrow> p
         | Some rows \<Rightarrow>
             (let s = addHourType hourType (store p);
                  row = buildRow hourType existingData s
              in p\<lparr>store := s, entriesBody := Some (rows @ [row])\<rparr>)))"

text \<open>
  \<open>document.getElementById('row-' + hourType)\<close> is the first row of that hour type.
\<close>

definition getRow :: "string \<Rightarrow> page \<Rightarrow> entry_row option" where
  "getRow hourType p =
     (case entriesBody p of
        None \<Rightarrow> None
      | Some rows \<Rightarrow> find (\<lambda>r. row_hourType r = hourType) rows)"

fun mapFirst :: "string \<Rightarrow> (entry_row \<Rightarrow> entry_row) \<Rightarrow> entry_row list \<Rightarrow> entry_row list" where
  "mapFirst h f [] = []"
| "mapFirst h f (r # rs) = (if row_hourType r = h then f r # rs else r # mapFirst h f rs)"

fun dropFirst :: "string \<Rightarrow> entry_row list \<Rightarrow> entry_row list" where
  "dropFirst h [] = []"
| "dropFirst h (r # rs) = (if row_hourType r = h then rs else r # dropFirst h rs)"

definition removeRow :: "string \<Rightarrow> page \<Rightarrow> page" where
  "removeRow hourType p =
     (case getRow hourType p of
        None \<Rightarrow> p
      | Some row \<Rightarrow>
          p\<lparr>entriesBody := map_option (dropFirst hourType) (entriesBody p),
            store := removeHourType hourType (store p)\<rparr>)"

subsection \<open>Totals\<close>

definition updateColumnTotals :: "page \<Rightarrow> page" where
  "updateColumnTotals p =
     (case entriesBody p of
        None \<Rightarrow> p
      | Some rows \<Rightarrow>
          p\<lparr>colTotal :=
              (\<lambda>d. toFixed1
                 (foldl (\<lambda>columnTotal r. columnTotal + parseNum (row_inputs r d)) 0 rows))\<rparr>)"

definition updateGrandTotal :: "page \<Rightarrow> page" where
  "updateGrandTotal p =
     (case entriesBody p of
        None \<Rightarrow> p
      | Some rows \<Rightarrow>
          p\<lparr>grandTotal :=
              toFixed1 (foldl (\<lambda>grand r. grand + row_total r) 0 rows)\<rparr>)"

definition updateRowTotal :: "string \<Rightarrow> page \<Rightarrow> page" where
  "updateRowTotal hourType p =
     (case getRow hourType p of
        None \<Rightarrow> p
      | Some row \<Rightarrow>
          updateGrandTotal
            (updateColumnTotals
               (p\<lparr>entriesBody :=
                    map_option
                      (mapFirst hourType (\<lambda>r. r\<lparr>row_total := toFixed1 (rowSum r)\<rparr>))
                      (entriesBody p)\<rparr>)))"

text \<open>
  The handler of \<open>input\<close> on an input of the row: the browser has put the typed text
  into the input (\<open>setInput\<close>), then the handler recomputes the totals and marks the
  state changed. Its note to the console about a holiday changes nothing and is left
  out.
\<close>

definition setInput :: "string \<Rightarrow> day \<Rightarrow> rat option \<Rightarrow> page \<Rightarrow> page" where
  "setInput hourType d v p =
     p\<lparr>entriesBody :=
         map_option
           (mapFirst hourType (\<lambda>r. r\<lparr>row_inputs := (row_inputs r)(d := v)\<rparr>))
           (entriesBody p)\<rparr>"

definition inputHandler :: "string \<Rightarrow> page \<Rightarrow> page" where
  "inputHandler hourType p =
     (let p1 = updateRowTotal hourType p in p1\<lparr>store := markChanged (store p1)\<rparr>)"

text \<open>
  The handler of \<open>change\<close> on the input of a row for a day: it reads the text of the
  input and writes the normalized text back. It calls none of the functions that
  recompute a total.
\<close>

definition changeEvent :: "string \<Rightarrow> day \<Rightarrow> page \<Rightarrow> page" where
  "changeEvent hourType d p =
     p\<lparr>entriesBody :=
         map_option
           (mapFirst hourType
              (\<lambda>r. r\<lparr>row_inputs := (row_inputs r)(d := changeHandler (row_inputs r d))\<rparr>))
           (entriesBody p)\<rparr>"

subsection \<open>Collecting\<close>

definition entryOf :: "entry_row \<Rightarrow> collected_entry" where
  "entryOf row =
     \<lparr>ce_hour_type = row_hourType row, ce_hours = (\<lambda>d. parseNum (row_inputs row d))\<rparr>"

definition hasHours :: "collected_entry \<Rightarrow> bool" where
  "hasHours e = list_ex (\<lambda>d. ce_hours e d > 0) days"

definition collectEntries :: "page \<Rightarrow> collected_entry list" where
  "collectEntries p =
     (case entriesBody p of
        None \<Rightarrow> []
      | Some rows \<Rightarrow>
          foldl (\<lambda>es row. let e = entryOf row in if hasHours e then es @ [e] else es)
            [] rows)"

text \<open>The page before any row is added, for a user of the given role.\<close>

definition blank_page :: "string option \<Rightarrow> page" where
  "blank_page role =
     \<lparr>store = initial_state, userRole = role, entriesBody = Some [],
      colTotal = (\<lambda>_. 0), grandTotal = 0, warned = []\<rparr>"

subsection \<open>Valid values\<close>

text \<open>
  A valid text of an input is empty or a number between 0 and 24 that is a multiple of
  one half: what the handler of \<open>change\<close> leaves. Sums of such numbers are exact in
  doubles, so the totals below are what the source computes. A row is valid when its
  seven inputs are; its total cell is current when it shows the sum of its inputs, as
  it does when the row is built and after every \<open>input\<close> event on the row.
\<close>

definition validValue :: "rat option \<Rightarrow> bool" where
  "validValue v =
     (case v of None \<Rightarrow> True | Some x \<Rightarrow> 0 \<le> x \<and> x \<le> 24 \<and> of_int \<lfloor>x * 2\<rfloor> = x * 2)"

definition validRow :: "entry_row \<Rightarrow> bool" where
  "validRow r = list_all (\<lambda>d. validValue (row_inputs r d)) days"

definition totalCurrent :: "entry_row \<Rightarrow> bool" where
  "totalCurrent r = (row_total r = toFixed1 (rowSum r))"

text \<open>
  The page of the scenario: a row for Work with 8 hours on Monday and on Tuesday, and a
  row for Training that is left empty.
\<close>

definition work_entry :: entry where
  "work_entry = \<lparr>hour_type = ''Work'', hours = (\<lambda>_. None)(Mon := Some 8, Tue := Some 8)\<rparr>"

definition scenario_page :: page where
  "scenario_page =
     addRow ''Training'' None (addRow ''Work'' (Some work_entry) (blank_page None))"

text \<open>
  Two sequences of events. In the first, on a page with empty rows for Work and
  Training, 7.3 is typed for Monday in the row of Work, the input is committed (the
  handler of \<open>change\<close> runs), and 1 is typed for Monday in the row of Training. In the
  second, 4 is typed for Wednesday in the row of Work of the scenario, and the row of
  Work is removed.
\<close>

definition two_rows_page :: page where
  "two_rows_page = addRow ''Training'' None (addRow ''Work'' None (blank_page None))"

definition typed_page :: page where
  "typed_page = inputHandler ''Work'' (setInput ''Work'' Mon (Some (73 / 10)) two_rows_page)"

definition committed_page :: page where
  "committed_page = changeEvent ''Work'' Mon typed_page"

definition stale_row_page :: page where
  "stale_row_page =
     inputHandler ''Training'' (setInput ''Training'' Mon (Some 1) committed_page)"

definition removed_row_page :: page where
  "removed_row_page =
     removeRow ''Work'' (inputHandler ''Work'' (setInput ''Work'' Wed (Some 4) scenario_page))"


section \<open>Editability\<close>

text \<open>
  C6. For every loaded record, \<open>isEditable()\<close> is exactly
  \<open>!payPeriodLocked && status in {NEW, NEEDS_APPROVAL}\<close>, where \<open>payPeriodLocked\<close> is
  \<open>pay_period_confirmed\<close> and is false when the property is absent. The call changes no
  field and emits nothing: the source function only reads, which the model renders by
  its type.
\<close>

theorem isEditable_loaded:
  "currentTimesheet s = Some t \<Longrightarrow>
     isEditable s = (\<not> payPeriodLocked t \<and> status t \<in> {''NEW'', ''NEEDS_APPROVAL''})
     \<and> (pay_period_confirmed t = None \<longrightarrow> \<not> payPeriodLocked t)"
  by (simp add: isEditable_def payPeriodLocked_def split: option.splits)

theorem isEditable_loaded_witness:
  "currentTimesheet (loadTimesheet new_record initial_state) = Some new_record
   \<and> isEditable (loadTimesheet new_record initial_state)
   \<and> \<not> payPeriodLocked new_record
   \<and> \<not> isEditable (loadTimesheet submitted_record initial_state)"
proof -
  have a: "currentTimesheet (loadTimesheet new_record initial_state) = Some new_record"
    by (simp add: loadTimesheet_def callListeners_def initial_state_def new_record_def
        submitted_record_def)
  have b: "currentTimesheet (loadTimesheet submitted_record initial_state) = Some submitted_record"
    by (simp add: loadTimesheet_def callListeners_def initial_state_def submitted_record_def)
  show ?thesis
    using isEditable_loaded [OF a] isEditable_loaded [OF b] a
    by (simp add: new_record_def submitted_record_def payPeriodLocked_def)
qed

text \<open>
  C10. While no record is loaded (\<open>currentTimesheet\<close> is \<open>null\<close>), \<open>isEditable()\<close> is true,
  whatever the other fields hold.
\<close>

theorem isEditable_draft:
  "currentTimesheet s = None \<Longrightarrow> isEditable s"
  by (simp add: isEditable_def)

theorem isEditable_draft_witness:
  "currentTimesheet (addHourType ''Work'' (init (Some ''2026-01-04'') initial_state)) = None
   \<and> isEditable (addHourType ''Work'' (init (Some ''2026-01-04'') initial_state))"
proof -
  have a: "currentTimesheet (addHourType ''Work'' (init (Some ''2026-01-04'') initial_state)) = None"
    by (simp add: addHourType_def markChanged_def init_def callListeners_def initial_state_def)
  show ?thesis using isEditable_draft [OF a] a by simp
qed

section \<open>The store\<close>

lemma callListeners_fields [simp]:
  "currentTimesheet (callListeners e d s) = currentTimesheet s"
  "currentWeekStart (callListeners e d s) = currentWeekStart s"
  "addedHourTypes (callListeners e d s) = addedHourTypes s"
  "reimbursementItems (callListeners e d s) = reimbursementItems s"
  "hasUnsavedChanges (callListeners e d s) = hasUnsavedChanges s"
  "listeners (callListeners e d s) = listeners s"
  "emitted (callListeners e d s) = emitted s @ [(e, d)]"
  "invoked (callListeners e d s) = invoked s @ map (\<lambda>cb. (cb, e, d)) (listeners s e)"
  by (simp_all add: callListeners_def)

text \<open>The names that the operations emit are not inherited: \<open>emit\<close> runs the loop.\<close>

lemma emit_own_events:
  assumes "event \<in> {''init'', ''timesheetLoaded'', ''changed'', ''hourTypeAdded'',
      ''hourTypeRemoved''}"
  shows "emit event d s = Inr (callListeners event d s)"
  using assms by (auto simp: emit_def inheritedName_def)

lemma markChanged_fields [simp]:
  "currentTimesheet (markChanged s) = currentTimesheet s"
  "currentWeekStart (markChanged s) = currentWeekStart s"
  "addedHourTypes (markChanged s) = addedHourTypes s"
  "reimbursementItems (markChanged s) = reimbursementItems s"
  "hasUnsavedChanges (markChanged s) = True"
  "listeners (markChanged s) = listeners s"
  "emitted (markChanged s) =
     emitted s @ (if hasUnsavedChanges s then [] else [(''changed'', ChangedData True)])"
  by (simp_all add: markChanged_def)

text \<open>
  \<open>markChanged\<close> tests the flag: on a state that is already changed it does nothing at
  all.
\<close>

lemma markChanged_when_changed: "hasUnsavedChanges s \<Longrightarrow> markChanged s = s"
  by (simp add: markChanged_def)

text \<open>
  C7. \<open>markChanged\<close> and \<open>clearChanges\<close> should emit \<open>changed\<close> only when the flag
  really changes. \<open>clearChanges\<close> has no test of the flag: called on the initial state,
  whose flag is already false, it emits \<open>changed\<close> with \<open>hasChanges: false\<close>.
\<close>

theorem clearChanges_emits_without_transition:
  "hasUnsavedChanges initial_state = False
   \<and> hasUnsavedChanges (clearChanges initial_state) = False
   \<and> emitted initial_state = []
   \<and> emitted (clearChanges initial_state) = [(''changed'', ChangedData False)]"
  by (simp add: clearChanges_def initial_state_def)

text \<open>
  C8, as the claim states it, fails: a callback registered for \<open>changed\<close> before \<open>init\<close>
  is called by the \<open>changed\<close> event that \<open>markChanged\<close> emits after \<open>init\<close>.
\<close>

theorem init_keeps_listeners_counterexample:
  "on ''changed'' 7 initial_state = Inr subscribed_state
   \<and> invoked (init (Some ''2026-01-11'') subscribed_state) = []
   \<and> invoked (markChanged (init (Some ''2026-01-11'') subscribed_state)) =
       [(7, ''changed'', ChangedData True)]"
  by (simp add: markChanged_def init_def on_def inheritedName_def callListeners_def
      subscribed_state_def initial_state_def)

text \<open>
  C8, amended. \<open>init(weekStart)\<close> sets \<open>currentTimesheet\<close> to null, \<open>currentWeekStart\<close>
  to \<open>weekStart\<close>, \<open>addedHourTypes\<close> and \<open>reimbursementItems\<close> to empty and
  \<open>hasUnsavedChanges\<close> to false, and emits \<open>init\<close> to the callbacks registered for it. It
  leaves the listeners as they are. For an event name that the listener object does not
  inherit from \<open>Object.prototype\<close>, \<open>on\<close> registers the callback, an event of that name
  emitted after \<open>init\<close> still calls every callback registered before it, and a callback
  is dropped only by the unsubscribe function that \<open>on\<close> returned. For an inherited name
  \<open>on\<close> and \<open>emit\<close> throw a \<open>TypeError\<close>.
\<close>

theorem init_resets_data_keeps_listeners:
  "currentTimesheet (init w s) = None
   \<and> currentWeekStart (init w s) = w
   \<and> addedHourTypes (init w s) = []
   \<and> reimbursementItems (init w s) = []
   \<and> hasUnsavedChanges (init w s) = False
   \<and> listeners (init w s) = listeners s
   \<and> emitted (init w s) = emitted s @ [(''init'', InitData w)]
   \<and> invoked (init w s) = invoked s @ map (\<lambda>c. (c, ''init'', InitData w)) (listeners s ''init'')
   \<and> (inheritedName e \<longrightarrow> on e cb s = Inl TypeError \<and> emit e d (init w s) = Inl TypeError)
   \<and> (\<not> inheritedName e \<longrightarrow>
        (\<exists>s1. on e cb s = Inr s1
           \<and> listeners s1 = (listeners s)(e := listeners s e @ [cb])
           \<and> listeners (init w s1) e = listeners s e @ [cb]
           \<and> emit e d (init w s1) = Inr (callListeners e d (init w s1))
           \<and> invoked (callListeners e d (init w s1)) =
                invoked (init w s1) @ map (\<lambda>c. (c, e, d)) (listeners s e @ [cb])
           \<and> cb \<notin> set (listeners (unsubscribe e cb (init w s1)) e)))"
  by (simp add: init_def on_def emit_def unsubscribe_def)

theorem init_resets_data_keeps_listeners_witness:
  "\<not> inheritedName ''changed''
   \<and> inheritedName ''toString''
   \<and> on ''toString'' 7 initial_state = Inl TypeError
   \<and> emit ''toString'' (ChangedData True) (init None initial_state) = Inl TypeError
   \<and> on ''changed'' 7 initial_state = Inr subscribed_state
   \<and> listeners (init None subscribed_state) ''changed'' = [7]
   \<and> invoked (callListeners ''changed'' (ChangedData True) (init None subscribed_state)) =
       [(7, ''changed'', ChangedData True)]"
proof -
  have a: "\<not> inheritedName ''changed''" and b: "inheritedName ''toString''"
    by (simp_all add: inheritedName_def)
  have c: "on ''changed'' 7 initial_state = Inr subscribed_state"
    by (simp add: on_def a subscribed_state_def initial_state_def)
  have d: "invoked (init None subscribed_state) = []" "listeners initial_state ''changed'' = []"
    by (simp_all add: init_def subscribed_state_def initial_state_def)
  show ?thesis
    using init_resets_data_keeps_listeners
        [of None initial_state "''changed''" 7 "ChangedData True"]
      init_resets_data_keeps_listeners
        [of None initial_state "''toString''" 7 "ChangedData True"]
      a b c d
    by simp
qed



lemma totals_store [simp]:
  "store (updateColumnTotals p) = store p" "store (updateGrandTotal p) = store p"
  by (simp_all add: updateColumnTotals_def updateGrandTotal_def split: option.splits)



section \<open>Adding rows\<close>

text \<open>
  C3, as the claim states it, fails in its last part: on a page whose flag is clear, the
  two calls of \<open>addRow('Work')\<close> emit two events, \<open>changed\<close> and \<open>hourTypeAdded\<close>, both
  in the first call.
\<close>

theorem addRow_twice_two_events_counterexample:
  "emitted (store (blank_page None)) = []
   \<and> emitted (store (addRow ''Work'' None (addRow ''Work'' None (blank_page None)))) =
       [(''changed'', ChangedData True), (''hourTypeAdded'', HourTypeData ''Work'')]
   \<and> length (emitted (store (addRow ''Work'' None (addRow ''Work'' None (blank_page None))))) = 2"
  by (simp add: addRow_def blank_page_def hasHourType_def initial_state_def
      addHourType_def set_add_def Let_def)

text \<open>
  C3, amended. When the table body is on the page and the category is not yet present,
  the first \<open>addRow\<close> adds it and the second \<open>addRow\<close> of the same category only logs
  the warning: the store, with \<open>addedHourTypes\<close>, and the rows are as the first call left
  them, and the second call emits nothing. Across the two calls \<open>hourTypeAdded\<close> is
  emitted exactly once; before it, the first call emits \<open>changed\<close> once through
  \<open>markChanged\<close> when \<open>hasUnsavedChanges\<close> was false. So one event fires when the flag
  was set, and two when it was clear.
\<close>

theorem addRow_twice:
  assumes "entriesBody p = Some rows" and "\<not> hasHourType h (store p)"
  shows "hasHourType h (store (addRow h e p))
    \<and> addRow h e' (addRow h e p) =
        (addRow h e p)\<lparr>warned := warned (addRow h e p) @ [''Hour type '' @ h @ '' already added'']\<rparr>
    \<and> addedHourTypes (store (addRow h e' (addRow h e p))) = addedHourTypes (store (addRow h e p))
    \<and> emitted (store (addRow h e' (addRow h e p))) = emitted (store (addRow h e p))
    \<and> emitted (store (addRow h e p)) =
        emitted (store p)
        @ (if hasUnsavedChanges (store p) then [] else [(''changed'', ChangedData True)])
        @ [(''hourTypeAdded'', HourTypeData h)]
    \<and> length (filter (\<lambda>ev. fst ev = ''hourTypeAdded'')
         (drop (length (emitted (store p))) (emitted (store (addRow h e' (addRow h e p)))))) = 1
    \<and> length (drop (length (emitted (store p))) (emitted (store (addRow h e' (addRow h e p))))) =
        (if hasUnsavedChanges (store p) then 1 else 2)"
proof -
  have 1: "hasHourType h (store (addRow h e p))"
    using assms by (simp add: addRow_def hasHourType_def addHourType_def set_add_def Let_def)
  have 2: "addRow h e' (addRow h e p) =
        (addRow h e p)\<lparr>warned := warned (addRow h e p) @ [''Hour type '' @ h @ '' already added'']\<rparr>"
    using 1 by (simp add: addRow_def[of h e' "addRow h e p"])
  have 3: "emitted (store (addRow h e p)) =
        emitted (store p)
        @ (if hasUnsavedChanges (store p) then [] else [(''changed'', ChangedData True)])
        @ [(''hourTypeAdded'', HourTypeData h)]"
    using assms by (simp add: addRow_def addHourType_def Let_def)
  show ?thesis using 1 3 by (simp add: 2)
qed

theorem addRow_twice_witness:
  "entriesBody (blank_page None) = Some []
   \<and> \<not> hasHourType ''Work'' (store (blank_page None))
   \<and> addedHourTypes (store (addRow ''Work'' None (addRow ''Work'' None (blank_page None)))) =
       [''Work'']
   \<and> warned (addRow ''Work'' None (addRow ''Work'' None (blank_page None))) =
       [''Hour type Work already added'']
   \<and> emitted (store (addRow ''Work'' None (addRow ''Work'' None (blank_page None)))) =
       [(''changed'', ChangedData True), (''hourTypeAdded'', HourTypeData ''Work'')]"
proof -
  have a: "entriesBody (blank_page None) = Some []"
    and b: "\<not> hasHourType ''Work'' (store (blank_page None))"
    by (simp_all add: blank_page_def hasHourType_def initial_state_def)
  have c: "addedHourTypes (store (addRow ''Work'' None (blank_page None))) = [''Work'']"
    "warned (addRow ''Work'' None (blank_page None)) = []"
    by (simp_all add: addRow_def blank_page_def hasHourType_def initial_state_def
        addHourType_def set_add_def Let_def)
  have d: "emitted (store (blank_page None)) = []" "\<not> hasUnsavedChanges (store (blank_page None))"
    by (simp_all add: blank_page_def initial_state_def)
  show ?thesis
    using addRow_twice [OF a b, of None None] a b c d by simp
qed

text \<open>
  C9, as the claim states it, fails in its last part: for a trainee the available hour
  types are Training alone, yet \<open>addRow('Work')\<close> adds Work.
\<close>

theorem addRow_ignores_role_counterexample:
  "getAvailableHourTypes (blank_page (Some ''trainee'')) = [''Training'']
   \<and> hasHourType ''Work'' (store (addRow ''Work'' None (blank_page (Some ''trainee''))))"
  by (simp add: getAvailableHourTypes_def TRAINEE_HOUR_TYPES_def blank_page_def addRow_def
      hasHourType_def initial_state_def addHourType_def set_add_def Let_def)

text \<open>
  C9, amended. For the role \<open>trainee\<close>, \<open>getAvailableHourTypes\<close> returns Training alone;
  for every other role, and when no user is known, it returns Work, Training, Field and
  Holiday. The role restricts what the selector offers: \<open>populateSelector\<close> offers the
  available hour types that are not yet added. \<open>addRow\<close> does not look at the role: it
  adds any hour type that is not yet present.
\<close>

theorem available_hour_types_by_role:
  "getAvailableHourTypes p =
     (if userRole p = Some ''trainee'' then [''Training'']
      else [''Work'', ''Training'', ''Field'', ''Holiday''])
   \<and> (userRole p = Some ''trainee'' \<longrightarrow> length (getAvailableHourTypes p) = 1)
   \<and> set (populateSelector p) = set (getAvailableHourTypes p) - set (addedHourTypes (store p))
   \<and> (entriesBody p \<noteq> None \<and> \<not> hasHourType h (store p) \<longrightarrow>
        hasHourType h (store (addRow h e p)))"
  by (auto simp: getAvailableHourTypes_def populateSelector_def TRAINEE_HOUR_TYPES_def
      ALL_HOUR_TYPES_def hasHourType_def addRow_def addHourType_def set_add_def Let_def
      split: option.splits)

theorem available_hour_types_by_role_witness:
  "getAvailableHourTypes (blank_page (Some ''trainee'')) = [''Training'']
   \<and> populateSelector (blank_page (Some ''trainee'')) = [''Training'']
   \<and> getAvailableHourTypes (blank_page (Some ''staff'')) =
       [''Work'', ''Training'', ''Field'', ''Holiday'']
   \<and> hasHourType ''Field'' (store (addRow ''Field'' None (blank_page (Some ''trainee''))))"
proof -
  have a: "userRole (blank_page (Some ''trainee'')) = Some ''trainee''"
    "userRole (blank_page (Some ''staff'')) = Some ''staff''"
    "entriesBody (blank_page (Some ''trainee'')) \<noteq> None"
    "\<not> hasHourType ''Field'' (store (blank_page (Some ''trainee'')))"
    by (simp_all add: blank_page_def hasHourType_def initial_state_def)
  have b: "populateSelector (blank_page (Some ''trainee'')) = [''Training'']"
    by (simp add: populateSelector_def getAvailableHourTypes_def TRAINEE_HOUR_TYPES_def
        blank_page_def hasHourType_def initial_state_def)
  show ?thesis
    using available_hour_types_by_role [of "blank_page (Some ''trainee'')" "''Field''" None]
      available_hour_types_by_role [of "blank_page (Some ''staff'')" "''Field''" None] a b
    by simp
qed

section \<open>Committing a value\<close>

lemma floor_rat_numeral [simp]:
  "\<lfloor>numeral a / numeral b :: rat\<rfloor> = numeral a div numeral b"
  using floor_divide_of_int_eq [of "numeral a" "numeral b", where 'a = rat] by simp

lemma floor_rat_one [simp]: "\<lfloor>1 / numeral b :: rat\<rfloor> = 1 div numeral b"
  using floor_divide_of_int_eq [of 1 "numeral b", where 'a = rat] by simp

lemma half_round:
  fixes c :: rat
  shows "\<bar>of_int \<lfloor>c * 2 + 1 / 2\<rfloor> / 2 - c\<bar> \<le> 1 / 4"
proof -
  define k :: rat where "k = of_int \<lfloor>c * 2 + 1 / 2\<rfloor>"
  have f1: "k \<le> c * 2 + 1 / 2" unfolding k_def by (rule of_int_floor_le)
  have f2: "c * 2 + 1 / 2 < k + 1" unfolding k_def by linarith
  have "\<bar>k / 2 - c\<bar> \<le> 1 / 4" using f1 f2 by linarith
  then show ?thesis by (simp add: k_def)
qed

text \<open>
  C4. The handler of \<open>change\<close> clamps the number of the input to the interval from 0 to
  24 and then rounds it to a multiple of one half that is nearest to it: the result lies
  between 0 and 24, is a multiple of one half and is at most a quarter away from the
  clamped number. For every input the handler writes the numeral of that result into the
  input, and the empty text when the result is 0, so that the committed text always
  reads as the result. 7.3 gives 7.5, -2 gives 0 and 30 gives 24. An empty or
  non-numeric text gives the empty text, which every total reads as 0; so does the 0
  that -2 gives, which is written as the empty text.
\<close>

theorem changeHandler_clamps_then_rounds:
  "0 \<le> changeValue v \<and> changeValue v \<le> 24
   \<and> (\<exists>k::int. changeValue v = of_int k / 2)
   \<and> \<bar>changeValue v - max 0 (min 24 (parseNum v))\<bar> \<le> 1 / 4
   \<and> changeValue (Some (73 / 10)) = 15 / 2
   \<and> changeValue (Some (- 2)) = 0
   \<and> changeValue (Some 30) = 24
   \<and> changeHandler v = (if changeValue v = 0 then None else Some (changeValue v))
   \<and> parseNum (changeHandler v) = changeValue v
   \<and> changeHandler (Some (73 / 10)) = Some (15 / 2)
   \<and> changeHandler (Some 30) = Some 24
   \<and> changeHandler (Some (- 2)) = None
   \<and> changeHandler None = None
   \<and> parseNum (changeHandler None) = 0
   \<and> parseNum (changeHandler (Some (- 2))) = 0"
proof -
  define c where "c = max 0 (min 24 (parseNum v))"
  have c: "0 \<le> c" "c \<le> 24" by (simp_all add: c_def)
  have cv: "changeValue v = of_int \<lfloor>c * 2 + 1 / 2\<rfloor> / 2"
    by (simp add: changeValue_def c_def Let_def)
  have lo: "0 \<le> \<lfloor>c * 2 + 1 / 2\<rfloor>" using c by simp
  have hi: "\<lfloor>c * 2 + 1 / 2\<rfloor> \<le> 48" using c by (simp add: floor_le_iff)
  have 1: "0 \<le> changeValue v" using lo by (simp add: cv)
  have "(of_int \<lfloor>c * 2 + 1 / 2\<rfloor> :: rat) \<le> of_int 48" using hi by (simp only: of_int_le_iff)
  then have 2: "changeValue v \<le> 24" by (simp add: cv)
  have 3: "\<exists>k::int. changeValue v = of_int k / 2" using cv by blast
  have 4: "\<bar>changeValue v - max 0 (min 24 (parseNum v))\<bar> \<le> 1 / 4"
    using half_round [of c] by (simp add: cv c_def)
  have 5: "changeValue (Some (73 / 10)) = 15 / 2"
    by (simp add: changeValue_def parseNum_def Let_def)
  have 6: "changeValue (Some (- 2)) = 0"
    by (simp add: changeValue_def parseNum_def Let_def)
  have 7: "changeValue (Some 30) = 24"
    by (simp add: changeValue_def parseNum_def Let_def)
  have 8: "changeHandler None = None"
    by (simp add: changeHandler_def changeValue_def parseNum_def Let_def)
  have 9: "parseNum (changeHandler (Some (- 2))) = 0"
    by (simp add: changeHandler_def 6 parseNum_def)
  have 10: "changeHandler v = (if changeValue v = 0 then None else Some (changeValue v))"
    by (simp add: changeHandler_def Let_def)
  have 11: "parseNum (changeHandler v) = changeValue v"
    by (simp add: 10 parseNum_def)
  have 12: "changeHandler (Some (73 / 10)) = Some (15 / 2)"
    "changeHandler (Some 30) = Some 24" "changeHandler (Some (- 2)) = None"
    by (simp_all add: changeHandler_def 5 6 7 Let_def)
  have 13: "parseNum (changeHandler None) = 0"
    by (simp add: 8 parseNum_def)
  show ?thesis using 1 2 3 4 5 6 7 8 9 10 11 12 13 by blast
qed

section \<open>Collecting the entries\<close>

lemma set_days: "set days = UNIV"
proof -
  have "d \<in> set days" for d by (cases d) (simp_all add: days_def)
  then show ?thesis by blast
qed

lemma hasHours_entryOf:
  "hasHours (entryOf r) \<longleftrightarrow> (\<exists>d. 0 < parseNum (row_inputs r d))"
  by (simp add: hasHours_def entryOf_def list_ex_iff set_days)

lemma collect_foldl:
  "foldl (\<lambda>es row. let e = entryOf row in if hasHours e then es @ [e] else es) acc rows =
     acc @ map entryOf (filter (\<lambda>r. hasHours (entryOf r)) rows)"
  by (induction rows arbitrary: acc) (simp_all add: Let_def)

text \<open>
  C5. \<open>collectEntries\<close> returns, in the order of the rows, the entries of exactly the
  rows that have a day whose value is greater than 0. So the entry of a row is in the
  result if and only if one of its seven values is greater than 0, and an hour type
  whose rows hold only zeros and empty inputs is absent from the result, also when it is
  in \<open>addedHourTypes\<close>.
\<close>

theorem collectEntries_positive_rows:
  assumes "entriesBody p = Some rows"
  shows "collectEntries p = map entryOf (filter (\<lambda>r. \<exists>d. 0 < parseNum (row_inputs r d)) rows)
    \<and> (\<forall>r \<in> set rows.
          entryOf r \<in> set (collectEntries p) \<longleftrightarrow> (\<exists>d. 0 < parseNum (row_inputs r d)))
    \<and> ((\<forall>r \<in> set rows. row_hourType r = h \<longrightarrow> (\<forall>d. parseNum (row_inputs r d) \<le> 0)) \<longrightarrow>
          h \<notin> set (map ce_hour_type (collectEntries p)))"
proof -
  have eq: "collectEntries p = map entryOf (filter (\<lambda>r. hasHours (entryOf r)) rows)"
    using assms by (simp add: collectEntries_def collect_foldl)
  have 1: "collectEntries p = map entryOf (filter (\<lambda>r. \<exists>d. 0 < parseNum (row_inputs r d)) rows)"
    unfolding eq by (simp add: hasHours_entryOf)
  have 2: "entryOf r \<in> set (collectEntries p) \<longleftrightarrow> (\<exists>d. 0 < parseNum (row_inputs r d))"
    if "r \<in> set rows" for r
  proof
    assume "entryOf r \<in> set (collectEntries p)"
    then obtain r' where "r' \<in> set rows" "hasHours (entryOf r')" "entryOf r' = entryOf r"
      unfolding eq by auto
    then have "hasHours (entryOf r)" by simp
    then show "\<exists>d. 0 < parseNum (row_inputs r d)" by (simp add: hasHours_entryOf)
  next
    assume "\<exists>d. 0 < parseNum (row_inputs r d)"
    then have "hasHours (entryOf r)" by (simp add: hasHours_entryOf)
    with that show "entryOf r \<in> set (collectEntries p)" unfolding eq by simp
  qed
  have 3: "h \<notin> set (map ce_hour_type (collectEntries p))"
    if "\<forall>r \<in> set rows. row_hourType r = h \<longrightarrow> (\<forall>d. parseNum (row_inputs r d) \<le> 0)"
  proof
    assume "h \<in> set (map ce_hour_type (collectEntries p))"
    then obtain r where r: "r \<in> set rows" "\<exists>d. 0 < parseNum (row_inputs r d)"
      "ce_hour_type (entryOf r) = h"
      unfolding 1 by auto
    then have "row_hourType r = h" by (simp add: entryOf_def)
    with that r(1) have "\<forall>d. parseNum (row_inputs r d) \<le> 0" by blast
    with r(2) show False by (simp add: not_less[symmetric])
  qed
  show ?thesis using 1 2 3 by blast
qed

text \<open>The rows of the page of the scenario.\<close>

lemma scenario_rows:
  "entriesBody scenario_page =
     Some [\<lparr>row_hourType = ''Work'',
            row_inputs = (\<lambda>_. None)(Mon := Some 8, Tue := Some 8),
            row_readonly = False, row_removeBtn = True, row_total = 16\<rparr>,
           \<lparr>row_hourType = ''Training'', row_inputs = (\<lambda>_. None),
            row_readonly = False, row_removeBtn = True, row_total = 0\<rparr>]"
  apply (simp add: scenario_page_def addRow_def blank_page_def hasHourType_def initial_state_def
        addHourType_def set_add_def Let_def buildRow_def isEditable_def work_entry_def
        days_def parseNum_def toFixed1_def)
  apply (auto simp: fun_eq_iff)
  done

theorem collectEntries_positive_rows_witness:
  "hasHourType ''Training'' (store scenario_page)
   \<and> hasHourType ''Work'' (store scenario_page)
   \<and> ''Training'' \<notin> set (map ce_hour_type (collectEntries scenario_page))
   \<and> ''Work'' \<in> set (map ce_hour_type (collectEntries scenario_page))"
proof -
  have s: "hasHourType ''Training'' (store scenario_page)" "hasHourType ''Work'' (store scenario_page)"
    by (simp_all add: scenario_page_def addRow_def blank_page_def hasHourType_def initial_state_def
        addHourType_def set_add_def Let_def)
  have pos: "\<exists>d. 0 < parseNum (((\<lambda>_. None)(Mon := Some 8, Tue := Some (8::rat))) d)"
    by (rule exI [of _ Mon]) (simp add: parseNum_def)
  show ?thesis
    using collectEntries_positive_rows [OF scenario_rows, of "''Training''"] s pos
    by (simp add: parseNum_def entryOf_def)
qed

section \<open>Totals\<close>

lemma foldl_plus_sum_list:
  fixes a :: rat
  shows "foldl (\<lambda>t x. t + f x) a xs = a + sum_list (map f xs)"
  by (induction xs arbitrary: a) simp_all

lemma rowSum_sum_list: "rowSum r = (\<Sum>d\<leftarrow>days. parseNum (row_inputs r d))"
  by (simp add: rowSum_def foldl_plus_sum_list)

text \<open>A half: a non-negative number whose double is an integer.\<close>

lemma toFixed1_half:
  fixes x :: rat
  assumes "0 \<le> x" and "x * 2 \<in> \<int>"
  shows "toFixed1 x = x"
proof -
  from assms(2) obtain k :: int where k: "x * 2 = of_int k" by (auto elim: Ints_cases)
  have "x * 10 + 1 / 2 = of_int (5 * k) + 1 / 2" using k by simp
  then have "\<lfloor>x * 10 + 1 / 2\<rfloor> = 5 * k + \<lfloor>1 / 2 :: rat\<rfloor>"
    by (simp only: floor_add_int[symmetric] add.commute)
  then have "\<lfloor>x * 10 + 1 / 2\<rfloor> = 5 * k" by simp
  then have "of_int \<lfloor>x * 10 + 1 / 2\<rfloor> / 10 = x" using k by simp
  with assms(1) show ?thesis by (simp add: toFixed1_def)
qed

lemma validValue_half:
  "validValue v \<Longrightarrow> 0 \<le> parseNum v \<and> parseNum v * 2 \<in> \<int>"
proof (cases v)
  case None
  then show ?thesis by (simp add: parseNum_def)
next
  case (Some x)
  assume "validValue v"
  with Some have "0 \<le> x" "of_int \<lfloor>x * 2\<rfloor> = x * 2" by (simp_all add: validValue_def)
  then have "0 \<le> x" "x * 2 \<in> \<int>" by (simp, metis Ints_of_int)
  with Some show ?thesis by (simp add: parseNum_def)
qed

lemma sum_list_half:
  fixes f :: "'a \<Rightarrow> rat"
  assumes "\<forall>x \<in> set xs. 0 \<le> f x \<and> f x * 2 \<in> \<int>"
  shows "0 \<le> sum_list (map f xs) \<and> sum_list (map f xs) * 2 \<in> \<int>"
  using assms by (induction xs) (simp_all add: distrib_right)

lemma validRow_value: "validRow r \<Longrightarrow> validValue (row_inputs r d)"
proof -
  have "d \<in> set days" by (cases d) (simp_all add: days_def)
  then show "validRow r \<Longrightarrow> validValue (row_inputs r d)"
    by (simp add: validRow_def list_all_iff)
qed

lemma rowSum_half: "validRow r \<Longrightarrow> 0 \<le> rowSum r \<and> rowSum r * 2 \<in> \<int>"
  unfolding rowSum_sum_list
  by (rule sum_list_half) (simp add: validValue_half validRow_value)

lemma sum_list_swap:
  fixes f :: "'a \<Rightarrow> 'b \<Rightarrow> rat"
  shows "(\<Sum>d\<leftarrow>ds. \<Sum>r\<leftarrow>rs. f r d) = (\<Sum>r\<leftarrow>rs. \<Sum>d\<leftarrow>ds. f r d)"
  by (induction rs) (simp_all add: sum_list_addf)

text \<open>The three sums of a table whose rows are valid and whose total cells are current.\<close>

lemma table_sums:
  assumes body: "entriesBody p = Some rows"
    and valid: "list_all validRow rows"
    and current: "list_all totalCurrent rows"
  shows "(\<Sum>r\<leftarrow>rows. row_total r) = (\<Sum>d\<leftarrow>days. colTotal (updateColumnTotals p) d)"
    and "(\<Sum>r\<leftarrow>rows. row_total r) = grandTotal (updateGrandTotal p)"
    and "(\<Sum>r\<leftarrow>rows. row_total r) = (\<Sum>r\<leftarrow>rows. rowSum r)"
proof -
  have rt: "row_total r = rowSum r" if "r \<in> set rows" for r
    using that valid current rowSum_half [of r]
    by (simp add: list_all_iff totalCurrent_def toFixed1_half)
  then show rows_eq: "(\<Sum>r\<leftarrow>rows. row_total r) = (\<Sum>r\<leftarrow>rows. rowSum r)"
    by (simp cong: map_cong)
  have col: "colTotal (updateColumnTotals p) d = (\<Sum>r\<leftarrow>rows. parseNum (row_inputs r d))" for d
  proof -
    have "0 \<le> (\<Sum>r\<leftarrow>rows. parseNum (row_inputs r d))
        \<and> (\<Sum>r\<leftarrow>rows. parseNum (row_inputs r d)) * 2 \<in> \<int>"
      by (rule sum_list_half) (use valid in \<open>simp add: list_all_iff validValue_half validRow_value\<close>)
    then show ?thesis
      using body by (simp add: updateColumnTotals_def foldl_plus_sum_list toFixed1_half)
  qed
  have "(\<Sum>d\<leftarrow>days. colTotal (updateColumnTotals p) d) =
      (\<Sum>d\<leftarrow>days. \<Sum>r\<leftarrow>rows. parseNum (row_inputs r d))"
    by (simp add: col)
  also have "\<dots> = (\<Sum>r\<leftarrow>rows. \<Sum>d\<leftarrow>days. parseNum (row_inputs r d))"
    by (rule sum_list_swap)
  also have "\<dots> = (\<Sum>r\<leftarrow>rows. rowSum r)"
    by (simp add: rowSum_sum_list)
  finally have "(\<Sum>d\<leftarrow>days. colTotal (updateColumnTotals p) d) = (\<Sum>r\<leftarrow>rows. rowSum r)" .
  with rows_eq show "(\<Sum>r\<leftarrow>rows. row_total r) = (\<Sum>d\<leftarrow>days. colTotal (updateColumnTotals p) d)"
    by simp
  have "0 \<le> (\<Sum>r\<leftarrow>rows. row_total r) \<and> (\<Sum>r\<leftarrow>rows. row_total r) * 2 \<in> \<int>"
    by (rule sum_list_half) (use valid rowSum_half in \<open>simp add: rt list_all_iff\<close>)
  then show "(\<Sum>r\<leftarrow>rows. row_total r) = grandTotal (updateGrandTotal p)"
    using body by (simp add: updateGrandTotal_def foldl_plus_sum_list toFixed1_half)
qed

lemma totals_fields [simp]:
  "entriesBody (updateColumnTotals p) = entriesBody p"
  "entriesBody (updateGrandTotal p) = entriesBody p"
  "colTotal (updateGrandTotal p) = colTotal p"
  by (simp_all add: updateColumnTotals_def updateGrandTotal_def split: option.splits)

lemma mapFirst_mapFirst:
  "(\<And>r. row_hourType (g r) = row_hourType r) \<Longrightarrow>
     mapFirst h f (mapFirst h g rows) = mapFirst h (\<lambda>r. f (g r)) rows"
  by (induction rows) simp_all

lemma list_all_mapFirst:
  "list_all P rows \<Longrightarrow> (\<And>r. P r \<Longrightarrow> P (f r)) \<Longrightarrow> list_all P (mapFirst h f rows)"
  by (induction rows) simp_all

lemma find_mapFirst:
  "(\<And>r. row_hourType (g r) = row_hourType r) \<Longrightarrow>
     find (\<lambda>r. row_hourType r = h) (mapFirst h g rows) =
       map_option g (find (\<lambda>r. row_hourType r = h) rows)"
  by (induction rows) simp_all

lemma validRow_update:
  assumes "validRow r" and "validValue v"
  shows "validRow (r\<lparr>row_inputs := (row_inputs r)(d := v), row_total := t\<rparr>)"
  using assms by (simp add: validRow_def list_all_iff)

lemma totalCurrent_update:
  "totalCurrent (r\<lparr>row_inputs := f, row_total := toFixed1 (rowSum (r\<lparr>row_inputs := f\<rparr>))\<rparr>)"
  by (simp add: totalCurrent_def rowSum_def)

text \<open>The rows after an \<open>input\<close> event.\<close>

lemma inputHandler_rows:
  assumes "entriesBody p = Some rows" and "getRow h p \<noteq> None"
  shows "inputHandler h (setInput h d v p) =
     updateGrandTotal (updateColumnTotals
       (p\<lparr>entriesBody := Some (mapFirst h
            (\<lambda>r. r\<lparr>row_inputs := (row_inputs r)(d := v),
                    row_total := toFixed1 (rowSum (r\<lparr>row_inputs := (row_inputs r)(d := v)\<rparr>))\<rparr>)
            rows)\<rparr>))
     \<lparr>store := markChanged (store p)\<rparr>"
proof -
  from assms obtain r0 where r0: "find (\<lambda>r. row_hourType r = h) rows = Some r0"
    by (auto simp: getRow_def)
  have g: "getRow h (setInput h d v p) \<noteq> None"
    using assms(1) r0 by (simp add: getRow_def setInput_def find_mapFirst)
  have st: "store (updateGrandTotal (updateColumnTotals q)) = store q" for q
    by (simp add: updateColumnTotals_def updateGrandTotal_def split: option.splits)
  show ?thesis
    using g assms(1)
    by (auto simp: inputHandler_def updateRowTotal_def Let_def st setInput_def
        mapFirst_mapFirst)
qed

text \<open>
  What the handler of \<open>input\<close> does establish: on a table whose inputs are all valid and
  whose row totals are current, after an \<open>input\<close> event that enters a valid value for a
  day into a row, the table is the old one with that value entered and the total of
  that row recomputed, the inputs are still valid and the row totals current, every row
  total is the sum of the seven values of its row, and the sum of the row totals equals
  the sum of the seven column totals and equals the grand total.
\<close>

lemma input_event_sums:
  assumes body: "entriesBody p = Some rows"
    and valid: "list_all validRow rows"
    and current: "list_all totalCurrent rows"
    and v: "validValue v"
    and row: "getRow h p \<noteq> None"
    and rows': "rows' = mapFirst h
        (\<lambda>r. r\<lparr>row_inputs := (row_inputs r)(d := v),
                row_total := toFixed1 (rowSum (r\<lparr>row_inputs := (row_inputs r)(d := v)\<rparr>))\<rparr>)
        rows"
  shows "entriesBody (inputHandler h (setInput h d v p)) = Some rows'
    \<and> list_all validRow rows' \<and> list_all totalCurrent rows'
    \<and> map row_hourType rows' = map row_hourType rows
    \<and> (\<forall>r \<in> set rows'. row_total r = (\<Sum>d'\<leftarrow>days. parseNum (row_inputs r d')))
    \<and> (\<Sum>r\<leftarrow>rows'. row_total r) =
        (\<Sum>d'\<leftarrow>days. colTotal (inputHandler h (setInput h d v p)) d')
    \<and> (\<Sum>r\<leftarrow>rows'. row_total r) = grandTotal (inputHandler h (setInput h d v p))"
proof -
  define F where "F = (\<lambda>r. r\<lparr>row_inputs := (row_inputs r)(d := v),
       row_total := toFixed1 (rowSum (r\<lparr>row_inputs := (row_inputs r)(d := v)\<rparr>))\<rparr>)"
  have rows'_def: "rows' = mapFirst h F rows" by (simp add: rows' F_def)
  define q where "q = p\<lparr>entriesBody := Some rows'\<rparr>"
  have res: "inputHandler h (setInput h d v p) =
      updateGrandTotal (updateColumnTotals q)\<lparr>store := markChanged (store p)\<rparr>"
    unfolding q_def rows'_def F_def by (rule inputHandler_rows [OF body row])
  have qb: "entriesBody q = Some rows'" by (simp add: q_def)
  have v': "list_all validRow rows'"
    unfolding rows'_def using valid
    by (rule list_all_mapFirst) (simp add: F_def validRow_update v)
  have c': "list_all totalCurrent rows'"
    unfolding rows'_def using current
    by (rule list_all_mapFirst) (simp add: F_def totalCurrent_update)
  have hm: "map row_hourType rows' = map row_hourType rows"
    unfolding rows'_def by (induction rows) (simp_all add: F_def)
  have rt: "row_total r = (\<Sum>d'\<leftarrow>days. parseNum (row_inputs r d'))" if "r \<in> set rows'" for r
    using that v' c' rowSum_half [of r]
    by (simp add: list_all_iff totalCurrent_def toFixed1_half rowSum_sum_list)
  have cols: "(\<Sum>r\<leftarrow>rows'. row_total r) = (\<Sum>d'\<leftarrow>days. colTotal (updateColumnTotals q) d')"
    by (rule table_sums(1) [OF qb v' c'])
  have qb2: "entriesBody (updateColumnTotals q) = Some rows'" by (simp add: qb)
  have grand: "(\<Sum>r\<leftarrow>rows'. row_total r) = grandTotal (updateGrandTotal (updateColumnTotals q))"
    by (rule table_sums(2) [OF qb2 v' c'])
  have "entriesBody (inputHandler h (setInput h d v p)) = Some rows'"
    by (simp add: res qb)
  moreover have "colTotal (inputHandler h (setInput h d v p)) = colTotal (updateColumnTotals q)"
    by (simp add: res)
  moreover have "grandTotal (inputHandler h (setInput h d v p)) =
      grandTotal (updateGrandTotal (updateColumnTotals q))"
    by (simp add: res)
  ultimately show ?thesis using v' c' hm rt cols grand by auto
qed

text \<open>
  The hypotheses of the lemma hold of the rows that \<open>addRow\<close> builds from valid data,
  and the handler of \<open>change\<close> does not change what a valid input counts for.
\<close>

lemma buildRow_current: "totalCurrent (buildRow h e s)"
proof -
  have "parseNum (case x of None \<Rightarrow> None | Some y \<Rightarrow> if y = 0 then None else Some y) = parseNum x"
    for x :: "rat option"
    by (simp add: parseNum_def split: option.splits)
  then show ?thesis
    by (cases e) (simp_all add: totalCurrent_def buildRow_def rowSum_def Let_def days_def parseNum_def)
qed

lemma validValue_blank_zero:
  "validValue x \<Longrightarrow>
     validValue (case x of None \<Rightarrow> None | Some y \<Rightarrow> if y = 0 then None else Some y)"
  by (cases x) (simp_all add: validValue_def)

lemma buildRow_valid:
  assumes "\<And>x d. e = Some x \<Longrightarrow> validValue (hours x d)"
  shows "validRow (buildRow h e s)"
proof (cases e)
  case None
  then show ?thesis by (simp add: validRow_def buildRow_def Let_def list_all_iff validValue_def)
next
  case (Some x)
  then have "validValue (hours x d)" for d using assms by simp
  then show ?thesis
    using Some by (simp add: validRow_def buildRow_def Let_def list_all_iff validValue_blank_zero)
qed

lemma addRow_keeps_rows_valid:
  assumes "entriesBody p = Some rows" and "list_all validRow rows" and "list_all totalCurrent rows"
    and "\<And>x d. e = Some x \<Longrightarrow> validValue (hours x d)"
  shows "\<exists>rows'. entriesBody (addRow h e p) = Some rows' \<and> list_all validRow rows'
     \<and> list_all totalCurrent rows'"
  using assms by (simp add: addRow_def Let_def buildRow_current buildRow_valid)

text \<open>
  The scenario in numbers: after 4 hours are entered for Wednesday in the row of Work,
  the grand total is 20, the total of Monday 8 and the total of Wednesday 4.
\<close>

lemma scenario_numbers:
  "grandTotal (inputHandler ''Work'' (setInput ''Work'' Wed (Some 4) scenario_page)) = 20
   \<and> colTotal (inputHandler ''Work'' (setInput ''Work'' Wed (Some 4) scenario_page)) Mon = 8
   \<and> colTotal (inputHandler ''Work'' (setInput ''Work'' Wed (Some 4) scenario_page)) Wed = 4"
  by (simp add: inputHandler_def setInput_def updateRowTotal_def getRow_def scenario_rows
      updateColumnTotals_def updateGrandTotal_def Let_def rowSum_def days_def parseNum_def
      toFixed1_def)

lemma changeHandler_valid:
  assumes "validValue v"
  shows "parseNum (changeHandler v) = parseNum v"
proof (cases v)
  case None
  then show ?thesis by (simp add: changeHandler_def changeValue_def parseNum_def Let_def)
next
  case (Some x)
  with assms have x: "0 \<le> x" "x \<le> 24" "of_int \<lfloor>x * 2\<rfloor> = x * 2"
    by (simp_all add: validValue_def)
  have "\<lfloor>x * 2 + 1 / 2\<rfloor> = \<lfloor>x * 2\<rfloor>"
  proof -
    have "x * 2 + 1 / 2 = of_int \<lfloor>x * 2\<rfloor> + 1 / 2" by (simp only: x(3))
    then have "\<lfloor>x * 2 + 1 / 2\<rfloor> = \<lfloor>x * 2\<rfloor> + \<lfloor>1 / 2 :: rat\<rfloor>"
      by (simp only: floor_add_int [symmetric] add.commute)
    then show ?thesis by simp
  qed
  then have "changeValue v = x"
    using x Some by (simp add: changeValue_def parseNum_def Let_def)
  then show ?thesis using Some by (simp add: changeHandler_def parseNum_def Let_def)
qed

text \<open>The rows of the two sequences of events, step by step.\<close>

lemma two_rows: "entriesBody two_rows_page =
     Some [\<lparr>row_hourType = ''Work'', row_inputs = (\<lambda>_. None),
            row_readonly = False, row_removeBtn = True, row_total = 0\<rparr>,
           \<lparr>row_hourType = ''Training'', row_inputs = (\<lambda>_. None),
            row_readonly = False, row_removeBtn = True, row_total = 0\<rparr>]"
  by (simp add: two_rows_page_def addRow_def blank_page_def hasHourType_def initial_state_def
        addHourType_def set_add_def Let_def buildRow_def isEditable_def toFixed1_def)

lemma typed_rows: "entriesBody typed_page =
     Some [\<lparr>row_hourType = ''Work'', row_inputs = (\<lambda>_. None)(Mon := Some (73 / 10)),
            row_readonly = False, row_removeBtn = True, row_total = 73 / 10\<rparr>,
           \<lparr>row_hourType = ''Training'', row_inputs = (\<lambda>_. None),
            row_readonly = False, row_removeBtn = True, row_total = 0\<rparr>]"
  by (simp add: typed_page_def inputHandler_def setInput_def updateRowTotal_def getRow_def
      two_rows Let_def rowSum_def days_def parseNum_def toFixed1_def)

lemma committed_rows: "entriesBody committed_page =
     Some [\<lparr>row_hourType = ''Work'', row_inputs = (\<lambda>_. None)(Mon := Some (15 / 2)),
            row_readonly = False, row_removeBtn = True, row_total = 73 / 10\<rparr>,
           \<lparr>row_hourType = ''Training'', row_inputs = (\<lambda>_. None),
            row_readonly = False, row_removeBtn = True, row_total = 0\<rparr>]"
  by (simp add: committed_page_def changeEvent_def typed_rows changeHandler_def changeValue_def
      parseNum_def Let_def)

lemma stale_rows: "entriesBody stale_row_page =
     Some [\<lparr>row_hourType = ''Work'', row_inputs = (\<lambda>_. None)(Mon := Some (15 / 2)),
            row_readonly = False, row_removeBtn = True, row_total = 73 / 10\<rparr>,
           \<lparr>row_hourType = ''Training'', row_inputs = (\<lambda>_. None)(Mon := Some 1),
            row_readonly = False, row_removeBtn = True, row_total = 1\<rparr>]"
  by (simp add: stale_row_page_def inputHandler_def setInput_def updateRowTotal_def getRow_def
      committed_rows Let_def rowSum_def days_def parseNum_def toFixed1_def)

text \<open>
  C2. The sum of the row totals should equal the sum of the seven column totals and the
  grand total whenever the inputs are valid. The code recomputes the totals in the
  handler of \<open>input\<close> only. The handler of \<open>change\<close> rewrites the input and recomputes
  nothing: after 7.3 is typed for Monday in the row of Work and committed to 7.5, and 1
  is typed for Monday in the row of Training, every input is valid, the row totals are
  7.3 and 1.0 and sum to 8.3, the column totals sum to 8.5, and the grand total that
  \<open>updateGrandTotal\<close> has just written is 8.3. \<open>removeRow\<close> recomputes nothing either:
  after the row of Work with 20 hours is removed, the row totals sum to 0 while the
  column totals still sum to 20 and the grand total is still 20.
\<close>

theorem totals_disagree_on_valid_inputs:
  "(\<exists>rows. entriesBody stale_row_page = Some rows
      \<and> list_all validRow rows
      \<and> map (\<lambda>r. row_inputs r Mon) rows = [Some (15 / 2), Some 1]
      \<and> map row_total rows = [73 / 10, 1]
      \<and> (\<Sum>r\<leftarrow>rows. row_total r) = 83 / 10)
   \<and> colTotal stale_row_page Mon = 17 / 2
   \<and> (\<Sum>d\<leftarrow>days. colTotal stale_row_page d) = 17 / 2
   \<and> grandTotal stale_row_page = 83 / 10
   \<and> (\<exists>rows. entriesBody removed_row_page = Some rows
      \<and> list_all validRow rows
      \<and> map row_hourType rows = [''Training'']
      \<and> (\<Sum>r\<leftarrow>rows. row_total r) = 0)
   \<and> (\<Sum>d\<leftarrow>days. colTotal removed_row_page d) = 20
   \<and> grandTotal removed_row_page = 20"
proof -
  have 1: "\<exists>rows. entriesBody stale_row_page = Some rows
      \<and> list_all validRow rows
      \<and> map (\<lambda>r. row_inputs r Mon) rows = [Some (15 / 2), Some 1]
      \<and> map row_total rows = [73 / 10, 1]
      \<and> (\<Sum>r\<leftarrow>rows. row_total r) = 83 / 10"
    by (simp add: stale_rows validRow_def validValue_def days_def)
  have 2: "colTotal stale_row_page = (\<lambda>_. 0)(Mon := 17 / 2)"
    by (auto simp: fun_eq_iff stale_row_page_def inputHandler_def setInput_def updateRowTotal_def
        getRow_def committed_rows updateColumnTotals_def updateGrandTotal_def Let_def
        parseNum_def toFixed1_def)
  have 3: "grandTotal stale_row_page = 83 / 10"
    by (simp add: stale_row_page_def inputHandler_def setInput_def updateRowTotal_def
        getRow_def committed_rows updateColumnTotals_def updateGrandTotal_def Let_def
        rowSum_def days_def parseNum_def toFixed1_def)
  have 4: "\<exists>rows. entriesBody removed_row_page = Some rows
      \<and> list_all validRow rows
      \<and> map row_hourType rows = [''Training'']
      \<and> (\<Sum>r\<leftarrow>rows. row_total r) = 0"
    by (simp add: removed_row_page_def removeRow_def inputHandler_def setInput_def
        updateRowTotal_def getRow_def scenario_rows updateColumnTotals_def updateGrandTotal_def
        Let_def validRow_def validValue_def days_def)
  have 5: "colTotal removed_row_page = (\<lambda>_. 0)(Mon := 8, Tue := 8, Wed := 4)"
    by (auto simp: fun_eq_iff removed_row_page_def removeRow_def inputHandler_def setInput_def
        updateRowTotal_def getRow_def scenario_rows updateColumnTotals_def updateGrandTotal_def
        Let_def parseNum_def toFixed1_def)
  have 6: "grandTotal removed_row_page = 20"
    by (simp add: removed_row_page_def removeRow_def inputHandler_def setInput_def
        updateRowTotal_def getRow_def scenario_rows updateColumnTotals_def updateGrandTotal_def
        Let_def rowSum_def days_def parseNum_def toFixed1_def)
  show ?thesis using 1 3 4 6 by (simp add: 2 5 days_def)
qed

end
